theory Spec2Isabelle
  imports Main "HOL-Library.Word"
begin

section \<open>Python values\<close>

text \<open>
  The values that reach the wait-duration resolvers are the values of a decoded JSON
  document: \<open>None\<close>, booleans, unbounded integers, floats, strings, lists and
  objects. A float is an IEEE-754 binary64, kept as its bit pattern; the resolvers never
  compute with it. A Python list grows at its end, so the top of the evaluation stack is
  the last element of the list.
\<close>

datatype pyval =
    PyNone
  | PyBool bool
  | PyInt int
  | PyFloat "64 word"
  | PyStr string
  | PyList "pyval list"
  | PyDict "(string \<times> pyval) list"

text \<open>
  \<open>isinstance(v, int)\<close>. In Python \<open>bool\<close> is a subclass of \<open>int\<close>, so
  the test holds of \<open>True\<close> and \<open>False\<close> as well as of every integer.
\<close>

fun isinstance_int :: "pyval \<Rightarrow> bool" where
  "isinstance_int PyNone = False"
| "isinstance_int (PyBool b) = True"
| "isinstance_int (PyInt n) = True"
| "isinstance_int (PyFloat w) = False"
| "isinstance_int (PyStr s) = False"
| "isinstance_int (PyList vs) = False"
| "isinstance_int (PyDict kvs) = False"

text \<open>
  \<open>v >= 0\<close> on an instance of \<open>int\<close> (\<open>True\<close> is 1 and \<open>False\<close> is 0).
  The source evaluates the comparison to the right of \<open>and\<close>, so only after
  \<open>isinstance(v, int)\<close> has held; the remaining equations are never reached.
\<close>

fun ge_zero :: "pyval \<Rightarrow> bool" where
  "ge_zero (PyInt n) = (0 \<le> n)"
| "ge_zero (PyBool b) = True"
| "ge_zero PyNone = False"
| "ge_zero (PyFloat w) = False"
| "ge_zero (PyStr s) = False"
| "ge_zero (PyList vs) = False"
| "ge_zero (PyDict kvs) = False"

section \<open>The environment and the failure model\<close>

text \<open>
  Of the execution environment the resolvers read and write the evaluation stack only.
\<close>

record Environment =
  stack :: "pyval list"

text \<open>
  The error-name taxonomy and the history event types are declared outside the module
  under verification, which references one member of each; the other members are
  gathered under one further constructor. The records below have the fields that the
  module's constructor calls name; the field \<open>typ\<close> of an error name is written
  \<open>typ'\<close>, since \<open>typ\<close> is a keyword of Isabelle.
\<close>

datatype StatesErrorNameType = StatesRuntime | OtherStatesErrorNameType string

datatype HistoryEventType = ExecutionFailed | OtherHistoryEventType string

record StatesErrorName =
  typ' :: StatesErrorNameType

record ExecutionFailedEventDetails =
  error :: string
  cause :: string

record EventDetails =
  executionFailedEventDetails :: ExecutionFailedEventDetails

record FailureEvent =
  env :: Environment
  error_name :: StatesErrorName
  event_type :: HistoryEventType
  event_details :: EventDetails

text \<open>
  What a call can raise: the failure event of the workflow engine, Python's
  \<open>IndexError\<close> (with its message) from indexing or popping an empty list, Python's
  \<open>ValueError\<close> (with its message) from rendering an integer of too many digits, and
  whatever else a collaborator raises.
\<close>

datatype exn =
    FailureEventException FailureEvent
  | IndexError string
  | ValueError string
  | OtherError string

section \<open>Collaborators\<close>

text \<open>
  The functions the module calls and does not define are parameters of the model:
  \<open>to_name\<close> is \<open>StatesErrorNameType.to_name\<close>, \<open>extract_json\<close> is the
  JSON-path extractor (it returns the value found or raises),
  \<open>float_repr\<close> and \<open>str_repr\<close> are Python's \<open>repr\<close> on a float and on a
  string.
\<close>

record externals =
  to_name :: "StatesErrorNameType \<Rightarrow> string"
  extract_json :: "string \<Rightarrow> pyval \<Rightarrow> exn + pyval"
  float_repr :: "64 word \<Rightarrow> string"
  str_repr :: "string \<Rightarrow> string"

text \<open>
  A variable sample holds the text of its expression and its evaluation, which acts on
  the environment in place: it returns the environment it leaves behind, also when it
  raises.
\<close>

record VariableSample =
  expression :: string
  eval :: "Environment \<Rightarrow> (exn + unit) \<times> Environment"

section \<open>String formatting\<close>

text \<open>The decimal digits of a natural number, most significant first.\<close>

fun dec :: "nat \<Rightarrow> string" where
  "dec n =
     (if n < 10 then [''0123456789'' ! n]
      else dec (n div 10) @ [''0123456789'' ! (n mod 10)])"

declare dec.simps [simp del]

text \<open>
  \<open>str\<close> of an integer. CPython refuses to convert an integer of more than
  \<open>sys.int_info.default_max_str_digits\<close> = 4300 decimal digits (the limit as the
  interpreter sets it when it is not configured otherwise) and raises \<open>ValueError\<close>.
\<close>

definition int_max_str_digits :: nat where
  "int_max_str_digits = 4300"

definition str_int :: "int \<Rightarrow> exn + string" where
  "str_int i =
     (if 10 ^ int_max_str_digits \<le> \<bar>i\<bar>
      then Inl (ValueError
        ''Exceeds the limit (4300 digits) for integer string conversion; use sys.set_int_max_str_digits() to increase the limit'')
      else Inr (if i < 0 then CHR ''-'' # dec (nat (- i)) else dec (nat i)))"

text \<open>
  \<open>repr\<close> of a value; the elements of a list and the items of an object are rendered
  from left to right and joined by a comma and a space. The first element that cannot be
  rendered ends the rendering with its exception.
\<close>

fun py_repr :: "externals \<Rightarrow> pyval \<Rightarrow> exn + string"
  and repr_elems :: "externals \<Rightarrow> pyval list \<Rightarrow> exn + string"
  and repr_items :: "externals \<Rightarrow> (string \<times> pyval) list \<Rightarrow> exn + string" where
  "py_repr x PyNone = Inr ''None''"
| "py_repr x (PyBool b) = Inr (if b then ''True'' else ''False'')"
| "py_repr x (PyInt n) = str_int n"
| "py_repr x (PyFloat w) = Inr (float_repr x w)"
| "py_repr x (PyStr s) = Inr (str_repr x s)"
| "py_repr x (PyList vs) =
     (case repr_elems x vs of
        Inl err \<Rightarrow> Inl err
      | Inr r \<Rightarrow> Inr (''['' @ r @ '']''))"
| "py_repr x (PyDict kvs) =
     (case repr_items x kvs of
        Inl err \<Rightarrow> Inl err
      | Inr r \<Rightarrow> Inr (''{'' @ r @ ''}''))"
| "repr_elems x [] = Inr []"
| "repr_elems x [v] = py_repr x v"
| "repr_elems x (v # w # vs) =
     (case py_repr x v of
        Inl err \<Rightarrow> Inl err
      | Inr r \<Rightarrow>
          (case repr_elems x (w # vs) of
             Inl err \<Rightarrow> Inl err
           | Inr rs \<Rightarrow> Inr (r @ '', '' @ rs)))"
| "repr_items x [] = Inr []"
| "repr_items x [(k, v)] =
     (case py_repr x v of
        Inl err \<Rightarrow> Inl err
      | Inr r \<Rightarrow> Inr (str_repr x k @ '': '' @ r))"
| "repr_items x ((k, v) # kv # kvs) =
     (case py_repr x v of
        Inl err \<Rightarrow> Inl err
      | Inr r \<Rightarrow>
          (case repr_items x (kv # kvs) of
             Inl err \<Rightarrow> Inl err
           | Inr rs \<Rightarrow> Inr (str_repr x k @ '': '' @ r @ '', '' @ rs)))"

text \<open>
  What a replacement field \<open>{v}\<close> of an f-string renders: a string as it is, any
  other value as its \<open>repr\<close>.
\<close>

fun py_format :: "externals \<Rightarrow> pyval \<Rightarrow> exn + string" where
  "py_format x (PyStr s) = Inr s"
| "py_format x PyNone = py_repr x PyNone"
| "py_format x (PyBool b) = py_repr x (PyBool b)"
| "py_format x (PyInt n) = py_repr x (PyInt n)"
| "py_format x (PyFloat w) = py_repr x (PyFloat w)"
| "py_format x (PyList vs) = py_repr x (PyList vs)"
| "py_format x (PyDict kvs) = py_repr x (PyDict kvs)"

section \<open>The wait specifications\<close>

record SecondsPath =
  path :: string

record SecondsPathVar = SecondsPath +
  variable_sample :: VariableSample

definition SecondsPath_init :: "string \<Rightarrow> SecondsPath" where
  "SecondsPath_init p = \<lparr>path = p\<rparr>"

definition SecondsPathVar_init :: "VariableSample \<Rightarrow> SecondsPathVar" where
  "SecondsPathVar_init vs = \<lparr>path = expression vs, variable_sample = vs\<rparr>"

text \<open>
  \<open>SecondsPath._validate_seconds_value\<close>. The method is inherited by
  \<open>SecondsPathVar\<close>, so it is defined on every extension of the record. The
  f-string that renders the value is evaluated before the cause is chosen; when it raises,
  its exception leaves the method and no failure event is built.
\<close>

definition validate_seconds_value ::
  "externals \<Rightarrow> 'a SecondsPath_scheme \<Rightarrow> Environment \<Rightarrow> pyval \<Rightarrow> exn + unit" where
  "validate_seconds_value x self e seconds =
     (if isinstance_int seconds \<and> ge_zero seconds then Inr ()
      else
        let error_type = StatesRuntime in
        case py_format x seconds of
          Inl err \<Rightarrow> Inl err
        | Inr rendered \<Rightarrow>
            let assignment_description = path self @ '' == '' @ rendered;
                cause' =
                  (if \<not> isinstance_int seconds
                   then ''The SecondsPath parameter cannot be parsed as a long value: ''
                          @ assignment_description
                   else ''The SecondsPath parameter references a negative value: ''
                          @ assignment_description)
            in Inl (FailureEventException
                 \<lparr>env = e,
                  error_name = \<lparr>typ' = error_type\<rparr>,
                  event_type = ExecutionFailed,
                  event_details =
                    \<lparr>executionFailedEventDetails =
                       \<lparr>error = to_name x error_type, cause = cause'\<rparr>\<rparr>\<rparr>))"

text \<open>
  \<open>SecondsPath._get_wait_seconds\<close>: the result or the exception raised, and the
  environment the call leaves behind. \<open>env.stack[-1]\<close> raises on an empty list.
\<close>

definition SecondsPath_get_wait_seconds ::
  "externals \<Rightarrow> 'a SecondsPath_scheme \<Rightarrow> Environment \<Rightarrow> (exn + pyval) \<times> Environment" where
  "SecondsPath_get_wait_seconds x self e =
     (if stack e = [] then (Inl (IndexError ''list index out of range''), e)
      else
        let inp = last (stack e) in
        case extract_json x (path self) inp of
          Inl err \<Rightarrow> (Inl err, e)
        | Inr seconds \<Rightarrow>
            (case validate_seconds_value x self e seconds of
               Inl err \<Rightarrow> (Inl err, e)
             | Inr u \<Rightarrow> (Inr seconds, e)))"

text \<open>
  \<open>SecondsPathVar._get_wait_seconds\<close>: the variable sample is evaluated, the top of
  the stack is popped (\<open>pop\<close> raises on an empty list) and validated.
\<close>

definition SecondsPathVar_get_wait_seconds ::
  "externals \<Rightarrow> SecondsPathVar \<Rightarrow> Environment \<Rightarrow> (exn + pyval) \<times> Environment" where
  "SecondsPathVar_get_wait_seconds x self e =
     (case eval (variable_sample self) e of
        (Inl err, e1) \<Rightarrow> (Inl err, e1)
      | (Inr u, e1) \<Rightarrow>
          (if stack e1 = [] then (Inl (IndexError ''pop from empty list''), e1)
           else
             let seconds = last (stack e1);
                 e2 = e1\<lparr>stack := butlast (stack e1)\<rparr> in
             case validate_seconds_value x self e2 seconds of
               Inl err \<Rightarrow> (Inl err, e2)
             | Inr u' \<Rightarrow> (Inr seconds, e2)))"

section \<open>Auxiliary definitions for the statements\<close>

text \<open>
  The failure event that validation raises in environment \<open>e\<close> with cause \<open>c\<close>,
  written out once so that the statements below can name it.
\<close>

definition failure :: "externals \<Rightarrow> Environment \<Rightarrow> string \<Rightarrow> exn" where
  "failure x e c =
     FailureEventException
       \<lparr>env = e,
        error_name = \<lparr>typ' = StatesRuntime\<rparr>,
        event_type = ExecutionFailed,
        event_details =
          \<lparr>executionFailedEventDetails = \<lparr>error = to_name x StatesRuntime, cause = c\<rparr>\<rparr>\<rparr>"

text \<open>
  Two collaborators for concrete scenarios. \<open>lookup_field\<close> is an extractor for the
  paths \<open>$.key\<close> on an object; \<open>push_value v\<close> is the evaluation of a variable
  sample whose expression denotes \<open>v\<close>: it pushes \<open>v\<close> onto the stack.
\<close>

definition lookup_field :: "string \<Rightarrow> pyval \<Rightarrow> exn + pyval" where
  "lookup_field p d =
     (case d of
        PyDict kvs \<Rightarrow>
          (if take 2 p = ''$.'' then
             (case map_of kvs (drop 2 p) of
                Some v \<Rightarrow> Inr v
              | None \<Rightarrow> Inl (OtherError ''NoSuchJsonPathError''))
           else Inl (OtherError ''NoSuchJsonPathError''))
      | _ \<Rightarrow> Inl (OtherError ''NoSuchJsonPathError''))"

definition push_value :: "pyval \<Rightarrow> Environment \<Rightarrow> (exn + unit) \<times> Environment" where
  "push_value v e = (Inr (), e\<lparr>stack := stack e @ [v]\<rparr>)"

text \<open>
  Two outcomes of a resolution agree when they return the same value, or raise failure
  events of the same contents (error name, event type and details; the event's reference
  to its environment is left out of the comparison), or raise the same other exception.
\<close>

fun same_outcome :: "exn + pyval \<Rightarrow> exn + pyval \<Rightarrow> bool" where
  "same_outcome (Inr a) (Inr b) = (a = b)"
| "same_outcome (Inl (FailureEventException f)) (Inl (FailureEventException g)) =
     (error_name f = error_name g \<and> event_type f = event_type g
      \<and> event_details f = event_details g)"
| "same_outcome (Inl a) (Inl b) = (a = b)"
| "same_outcome (Inl a) (Inr b) = False"
| "same_outcome (Inr a) (Inl b) = False"

text \<open>
  The number that a string of decimal digits denotes.
\<close>

definition digits_value :: "string \<Rightarrow> nat" where
  "digits_value ds = foldl (\<lambda>a c. 10 * a + (of_char c - 48)) 0 ds"

text \<open>
  A value is within the digit limit when no integer in it, at any depth, has more than
  \<open>int_max_str_digits\<close> decimal digits.
\<close>

fun within_str_digits :: "pyval \<Rightarrow> bool" where
  "within_str_digits (PyInt n) = (\<bar>n\<bar> < 10 ^ int_max_str_digits)"
| "within_str_digits (PyList vs) = list_all within_str_digits vs"
| "within_str_digits (PyDict kvs) = list_all (\<lambda>kv. within_str_digits (snd kv)) kvs"
| "within_str_digits PyNone = True"
| "within_str_digits (PyBool b) = True"
| "within_str_digits (PyFloat w) = True"
| "within_str_digits (PyStr s) = True"

text \<open>
  Collaborators for scenarios evaluated to the last character. They give what the real
  ones give on the inputs of the scenarios: the canonical name of the runtime category,
  the \<open>repr\<close> of the float 3.0 (bit pattern \<open>0x4008000000000000\<close>), and the
  \<open>repr\<close> of a string of printable ASCII characters with neither quote nor backslash
  (the string between single quotes, \<open>CHR 0x27\<close>).
\<close>

definition scenario_to_name :: "StatesErrorNameType \<Rightarrow> string" where
  "scenario_to_name t =
     (case t of StatesRuntime \<Rightarrow> ''States.Runtime'' | OtherStatesErrorNameType s \<Rightarrow> s)"

definition scenario_float_repr :: "64 word \<Rightarrow> string" where
  "scenario_float_repr w = (if w = 0x4008000000000000 then ''3.0'' else ''nan'')"

definition scenario_str_repr :: "string \<Rightarrow> string" where
  "scenario_str_repr s = CHR 0x27 # s @ [CHR 0x27]"

definition scenario :: externals where
  "scenario =
     \<lparr>to_name = scenario_to_name, extract_json = lookup_field,
      float_repr = scenario_float_repr, str_repr = scenario_str_repr\<rparr>"

section \<open>The scenario collaborators\<close>

lemma scenario_extract_json: "extract_json scenario = lookup_field"
  by (simp add: scenario_def)

lemma lookup_wait:
  "lookup_field ''$.wait'' (PyDict [(''wait'', v)]) = Inr v"
  by (simp add: lookup_field_def)

section \<open>Decimal rendering\<close>

lemma digit_char: "n < 10 \<Longrightarrow> of_char (''0123456789'' ! n) = 48 + n"
proof -
  assume "n < 10"
  then consider "n = 0" | "n = 1" | "n = 2" | "n = 3" | "n = 4" | "n = 5" | "n = 6"
    | "n = 7" | "n = 8" | "n = 9"
    by atomize_elim arith
  then show ?thesis
    by cases simp_all
qed

lemma dec_nonempty: "dec n \<noteq> []"
  by (subst dec.simps) simp

lemma digits_value_snoc:
  "digits_value (ds @ [c]) = 10 * digits_value ds + (of_char c - 48)"
  by (simp add: digits_value_def)

lemma digits_value_dec: "digits_value (dec n) = n"
proof (induction n rule: dec.induct)
  case (1 n)
  show ?case
  proof (cases "n < 10")
    case True
    then show ?thesis
      by (subst dec.simps) (simp add: digits_value_def digit_char)
  next
    case False
    with "1" have "digits_value (dec (n div 10)) = n div 10"
      by simp
    moreover have "of_char (''0123456789'' ! (n mod 10)) = 48 + n mod 10"
      by (rule digit_char) simp
    ultimately show ?thesis
      using False by (subst dec.simps) (simp add: digits_value_snoc)
  qed
qed

lemma dec_digits: "set (dec n) \<subseteq> set ''0123456789''"
proof (induction n rule: dec.induct)
  case (1 n)
  have d: "''0123456789'' ! k \<in> set ''0123456789''" if "k < 10" for k
    by (rule nth_mem) (use that in simp)
  show ?case
  proof (cases "n < 10")
    case True
    with d [of n] show ?thesis
      by (subst dec.simps) simp
  next
    case False
    with "1" have "set (dec (n div 10)) \<subseteq> set ''0123456789''"
      by simp
    with d [of "n mod 10"] False show ?thesis
      by (subst dec.simps) simp
  qed
qed

lemma dec_no_leading_zero: "0 < n \<Longrightarrow> hd (dec n) \<noteq> CHR ''0''"
proof (induction n rule: dec.induct)
  case (1 n)
  show ?case
  proof (cases "n < 10")
    case True
    with "1.prems" consider "n = 1" | "n = 2" | "n = 3" | "n = 4" | "n = 5" | "n = 6"
      | "n = 7" | "n = 8" | "n = 9"
      by atomize_elim arith
    then show ?thesis
      by cases (simp_all add: dec.simps)
  next
    case False
    then have "0 < n div 10"
      by simp
    with "1.IH" False have "hd (dec (n div 10)) \<noteq> CHR ''0''"
      by simp
    with False show ?thesis
      by (subst dec.simps) (simp add: dec_nonempty)
  qed
qed

lemma dec_Suc_0: "dec (Suc 0) = ''1''"
  by (simp add: dec.simps)

section \<open>The digit limit\<close>

lemma four_digits_below_limit: "i < 10000 \<Longrightarrow> (i::int) < 10 ^ int_max_str_digits"
proof -
  assume small: "i < 10000"
  have "(4::nat) \<le> int_max_str_digits"
    by (simp add: int_max_str_digits_def)
  then have "(10::int) ^ 4 \<le> 10 ^ int_max_str_digits"
    by (rule power_increasing) simp
  with small show ?thesis
    by simp
qed

lemma limit_positive: "(0::int) < 10 ^ int_max_str_digits"
  by simp

lemma limit_not_below_zero: "\<not> (10::int) ^ int_max_str_digits \<le> 0"
  using limit_positive by linarith



lemma str_int_beyond:
  "str_int (- (10 ^ int_max_str_digits)) = Inl (ValueError
     ''Exceeds the limit (4300 digits) for integer string conversion; use sys.set_int_max_str_digits() to increase the limit'')"
  by (simp add: str_int_def)

lemma py_repr_within:
  "within_str_digits v \<Longrightarrow> \<exists>r. py_repr x v = Inr r"
  "list_all within_str_digits vs \<Longrightarrow> \<exists>r. repr_elems x vs = Inr r"
  "list_all (\<lambda>kv. within_str_digits (snd kv)) kvs \<Longrightarrow> \<exists>r. repr_items x kvs = Inr r"
  by (induction x v and x vs and x kvs rule: py_repr_repr_elems_repr_items.induct)
    (auto simp add: str_int_def)

lemma py_format_within: "within_str_digits v \<Longrightarrow> \<exists>r. py_format x v = Inr r"
  using py_repr_within(1) [of v x] by (cases v) simp_all

lemma py_repr_raises:
  "py_repr x v = Inl err \<Longrightarrow> err = ValueError
     ''Exceeds the limit (4300 digits) for integer string conversion; use sys.set_int_max_str_digits() to increase the limit''"
  "repr_elems x vs = Inl err \<Longrightarrow> err = ValueError
     ''Exceeds the limit (4300 digits) for integer string conversion; use sys.set_int_max_str_digits() to increase the limit''"
  "repr_items x kvs = Inl err \<Longrightarrow> err = ValueError
     ''Exceeds the limit (4300 digits) for integer string conversion; use sys.set_int_max_str_digits() to increase the limit''"
  by (induction x v and x vs and x kvs rule: py_repr_repr_elems_repr_items.induct)
    (auto simp add: str_int_def split: sum.splits if_splits)

lemma py_format_raises:
  "py_format x v = Inl err \<Longrightarrow> err = ValueError
     ''Exceeds the limit (4300 digits) for integer string conversion; use sys.set_int_max_str_digits() to increase the limit''"
  using py_repr_raises(1) [of x v err] by (cases v) simp_all

section \<open>The validator\<close>

lemma validate_accepts:
  "0 \<le> n \<Longrightarrow> validate_seconds_value x self e (PyInt n) = Inr ()"
  by (simp add: validate_seconds_value_def)

lemma validate_negative:
  "n < 0 \<Longrightarrow> - (10 ^ int_max_str_digits) < n \<Longrightarrow>
   validate_seconds_value x self e (PyInt n) =
     Inl (failure x e (''The SecondsPath parameter references a negative value: ''
                        @ path self @ '' == '' @ CHR ''-'' # dec (nat (- n))))"
  by (simp add: validate_seconds_value_def failure_def str_int_def)

lemma validate_not_int:
  "\<not> isinstance_int v \<Longrightarrow> py_format x v = Inr r \<Longrightarrow>
   validate_seconds_value x self e v =
     Inl (failure x e (''The SecondsPath parameter cannot be parsed as a long value: ''
                        @ path self @ '' == '' @ r))"
  by (simp add: validate_seconds_value_def failure_def)

lemma validate_str:
  "validate_seconds_value x self e (PyStr t) =
     Inl (failure x e (''The SecondsPath parameter cannot be parsed as a long value: ''
                        @ path self @ '' == '' @ t))"
  by (rule validate_not_int) simp_all

lemma validate_unrendered:
  "\<not> (isinstance_int v \<and> ge_zero v) \<Longrightarrow> py_format x v = Inl err \<Longrightarrow>
   validate_seconds_value x self e v = Inl err"
  by (simp add: validate_seconds_value_def)

lemma validate_bool: "validate_seconds_value x self e (PyBool b) = Inr ()"
  by (simp add: validate_seconds_value_def)

section \<open>The two resolvers, step by step\<close>

lemma path_get_wait_seconds_nonempty:
  "stack e \<noteq> [] \<Longrightarrow>
   SecondsPath_get_wait_seconds x self e =
     (case extract_json x (path self) (last (stack e)) of
        Inl err \<Rightarrow> (Inl err, e)
      | Inr seconds \<Rightarrow>
          (case validate_seconds_value x self e seconds of
             Inl err \<Rightarrow> (Inl err, e)
           | Inr u \<Rightarrow> (Inr seconds, e)))"
  by (simp add: SecondsPath_get_wait_seconds_def)

lemma var_get_wait_seconds_pushed:
  "eval (variable_sample self) e = (Inr (), e1) \<Longrightarrow> stack e1 = s @ [v] \<Longrightarrow>
   SecondsPathVar_get_wait_seconds x self e =
     (case validate_seconds_value x self (e1\<lparr>stack := s\<rparr>) v of
        Inl err \<Rightarrow> (Inl err, e1\<lparr>stack := s\<rparr>)
      | Inr u \<Rightarrow> (Inr v, e1\<lparr>stack := s\<rparr>))"
  by (simp add: SecondsPathVar_get_wait_seconds_def Let_def)

lemma path_get_wait_seconds_env: "snd (SecondsPath_get_wait_seconds x self e) = e"
  by (simp add: SecondsPath_get_wait_seconds_def Let_def split: sum.splits)

lemma same_outcome_Inl: "same_outcome (Inl a) (Inl a)"
  by (cases a) simp_all

lemma validate_same_outcome:
  "same_outcome
     (case validate_seconds_value x self ea v of Inl err \<Rightarrow> Inl err | Inr u \<Rightarrow> Inr v)
     (case validate_seconds_value x self eb v of Inl err \<Rightarrow> Inl err | Inr u \<Rightarrow> Inr v)"
  by (cases "py_format x v") (simp_all add: validate_seconds_value_def Let_def same_outcome_Inl)

lemma fst_path_get_wait_seconds:
  "stack e \<noteq> [] \<Longrightarrow>
   fst (SecondsPath_get_wait_seconds x self e) =
     (case extract_json x (path self) (last (stack e)) of
        Inl err \<Rightarrow> Inl err
      | Inr seconds \<Rightarrow>
          (case validate_seconds_value x self e seconds of
             Inl err \<Rightarrow> Inl err
           | Inr u \<Rightarrow> Inr seconds))"
  by (simp add: path_get_wait_seconds_nonempty split: sum.splits)

section \<open>Accepted durations\<close>

text \<open>
  Claim C1. When the raw value is a non-negative integer \<open>n\<close>, both resolvers return
  \<open>n\<close> itself: the path-based one when the extractor finds \<open>n\<close> at the path in the
  top of the stack, the variable-based one when the evaluation of the variable sample
  leaves \<open>n\<close> on top of the stack (which the resolver then pops).
\<close>

theorem nonneg_returned_unchanged:
  assumes "0 \<le> n"
  shows "(stack e \<noteq> [] \<and> extract_json x (path sp) (last (stack e)) = Inr (PyInt n)
            \<longrightarrow> SecondsPath_get_wait_seconds x sp e = (Inr (PyInt n), e))
       \<and> (eval (variable_sample sv) e = (Inr (), e1) \<and> stack e1 = s @ [PyInt n]
            \<longrightarrow> SecondsPathVar_get_wait_seconds x sv e = (Inr (PyInt n), e1\<lparr>stack := s\<rparr>))"
  using assms
  by (simp add: path_get_wait_seconds_nonempty var_get_wait_seconds_pushed validate_accepts)

theorem nonneg_returned_unchanged_witness:
  "\<forall>x.
     SecondsPath_get_wait_seconds (x\<lparr>extract_json := lookup_field\<rparr>)
       (SecondsPath_init ''$.wait'') \<lparr>stack = [PyDict [(''wait'', PyInt 5)]]\<rparr>
     = (Inr (PyInt 5), \<lparr>stack = [PyDict [(''wait'', PyInt 5)]]\<rparr>)
   \<and> SecondsPathVar_get_wait_seconds (x\<lparr>extract_json := lookup_field\<rparr>)
       (SecondsPathVar_init \<lparr>expression = ''$wait'', eval = push_value (PyInt 5)\<rparr>)
       \<lparr>stack = [PyDict []]\<rparr>
     = (Inr (PyInt 5), \<lparr>stack = [PyDict []]\<rparr>)"
proof (intro allI)
  fix x :: externals
  have pos: "(0::int) \<le> 5" by simp
  show "SecondsPath_get_wait_seconds (x\<lparr>extract_json := lookup_field\<rparr>)
       (SecondsPath_init ''$.wait'') \<lparr>stack = [PyDict [(''wait'', PyInt 5)]]\<rparr>
     = (Inr (PyInt 5), \<lparr>stack = [PyDict [(''wait'', PyInt 5)]]\<rparr>)
   \<and> SecondsPathVar_get_wait_seconds (x\<lparr>extract_json := lookup_field\<rparr>)
       (SecondsPathVar_init \<lparr>expression = ''$wait'', eval = push_value (PyInt 5)\<rparr>)
       \<lparr>stack = [PyDict []]\<rparr>
     = (Inr (PyInt 5), \<lparr>stack = [PyDict []]\<rparr>)"
    using nonneg_returned_unchanged [OF pos,
        where x = "x\<lparr>extract_json := lookup_field\<rparr>"
        and sp = "SecondsPath_init ''$.wait''"
        and e = "\<lparr>stack = [PyDict [(''wait'', PyInt 5)]]\<rparr>"
        and sv = "SecondsPathVar_init \<lparr>expression = ''$wait'', eval = push_value (PyInt 5)\<rparr>"
        and ?e1.0 = "\<lparr>stack = [PyDict [(''wait'', PyInt 5)], PyInt 5]\<rparr>"
        and s = "[PyDict [(''wait'', PyInt 5)]]"]
      nonneg_returned_unchanged [OF pos,
        where x = "x\<lparr>extract_json := lookup_field\<rparr>"
        and sp = "SecondsPath_init ''$.wait''"
        and e = "\<lparr>stack = [PyDict []]\<rparr>"
        and sv = "SecondsPathVar_init \<lparr>expression = ''$wait'', eval = push_value (PyInt 5)\<rparr>"
        and ?e1.0 = "\<lparr>stack = [PyDict [], PyInt 5]\<rparr>"
        and s = "[PyDict []]"]
    by (simp add: SecondsPath_init_def SecondsPathVar_init_def lookup_field_def push_value_def)
qed

section \<open>Negative durations\<close>

text \<open>
  Claim C2 says that every negative integer raises the failure event. The code does so
  up to the digit limit of the interpreter: on the integer \<open>- (10 ^ 4300)\<close>, of 4301
  digits, the f-string that renders the value raises \<open>ValueError\<close> before a failure
  event is built, for both resolvers.
\<close>

theorem negative_beyond_limit_counterexample:
  "- (10 ^ int_max_str_digits) < (0::int)
   \<and> SecondsPath_get_wait_seconds scenario (SecondsPath_init ''$.wait'')
       \<lparr>stack = [PyDict [(''wait'', PyInt (- (10 ^ int_max_str_digits)))]]\<rparr>
     = (Inl (ValueError
          ''Exceeds the limit (4300 digits) for integer string conversion; use sys.set_int_max_str_digits() to increase the limit''),
        \<lparr>stack = [PyDict [(''wait'', PyInt (- (10 ^ int_max_str_digits)))]]\<rparr>)
   \<and> SecondsPathVar_get_wait_seconds scenario
       (SecondsPathVar_init
          \<lparr>expression = ''$wait'', eval = push_value (PyInt (- (10 ^ int_max_str_digits)))\<rparr>)
       \<lparr>stack = [PyDict []]\<rparr>
     = (Inl (ValueError
          ''Exceeds the limit (4300 digits) for integer string conversion; use sys.set_int_max_str_digits() to increase the limit''),
        \<lparr>stack = [PyDict []]\<rparr>)"
proof -
  have big: "validate_seconds_value scenario self e (PyInt (- (10 ^ int_max_str_digits)))
      = Inl (ValueError
          ''Exceeds the limit (4300 digits) for integer string conversion; use sys.set_int_max_str_digits() to increase the limit'')"
    for self :: "'a SecondsPath_scheme" and e
    by (rule validate_unrendered) (simp_all add: str_int_beyond limit_not_below_zero)
  have pushed: "eval (variable_sample (SecondsPathVar_init
        \<lparr>expression = ''$wait'', eval = push_value (PyInt (- (10 ^ int_max_str_digits)))\<rparr>))
      \<lparr>stack = [PyDict []]\<rparr>
      = (Inr (), \<lparr>stack = [PyDict [], PyInt (- (10 ^ int_max_str_digits))]\<rparr>)"
    by (simp add: SecondsPathVar_init_def push_value_def)
  have "stack \<lparr>stack = [PyDict [], PyInt (- (10 ^ int_max_str_digits))]\<rparr>
      = [PyDict []] @ [PyInt (- (10 ^ int_max_str_digits))]"
    by simp
  from var_get_wait_seconds_pushed [OF pushed this, of scenario]
  have "SecondsPathVar_get_wait_seconds scenario
       (SecondsPathVar_init
          \<lparr>expression = ''$wait'', eval = push_value (PyInt (- (10 ^ int_max_str_digits)))\<rparr>)
       \<lparr>stack = [PyDict []]\<rparr>
     = (Inl (ValueError
          ''Exceeds the limit (4300 digits) for integer string conversion; use sys.set_int_max_str_digits() to increase the limit''),
        \<lparr>stack = [PyDict []]\<rparr>)"
    by (simp add: big)
  moreover
  have "SecondsPath_get_wait_seconds scenario (SecondsPath_init ''$.wait'')
       \<lparr>stack = [PyDict [(''wait'', PyInt (- (10 ^ int_max_str_digits)))]]\<rparr>
     = (Inl (ValueError
          ''Exceeds the limit (4300 digits) for integer string conversion; use sys.set_int_max_str_digits() to increase the limit''),
        \<lparr>stack = [PyDict [(''wait'', PyInt (- (10 ^ int_max_str_digits)))]]\<rparr>)"
    by (simp add: path_get_wait_seconds_nonempty scenario_extract_json SecondsPath_init_def
        lookup_wait big)
  ultimately show ?thesis
    using limit_positive by simp
qed

text \<open>
  Claim C2, as amended. When the raw value is a negative integer \<open>n\<close> of at most
  \<open>int_max_str_digits\<close> = 4300 decimal digits, both resolvers raise the failure event
  whose cause is the text \<open>The SecondsPath parameter references a negative value: \<close>
  followed by the path (for the variable-based resolver, the text of the expression),
  \<open> == \<close>, a minus sign and the decimal numeral of \<open>- n\<close>: the string of decimal
  digits without leading zero that denotes \<open>- n\<close>. No value is returned.
\<close>

theorem negative_within_limit_raises_failure_event:
  assumes "n < 0" and "- (10 ^ int_max_str_digits) < n"
  shows "(stack e \<noteq> [] \<and> extract_json x (path sp) (last (stack e)) = Inr (PyInt n)
            \<longrightarrow> SecondsPath_get_wait_seconds x sp e =
                  (Inl (failure x e
                     (''The SecondsPath parameter references a negative value: ''
                        @ path sp @ '' == '' @ CHR ''-'' # dec (nat (- n)))), e))
       \<and> (eval vs e = (Inr (), e1) \<and> stack e1 = s @ [PyInt n]
            \<longrightarrow> SecondsPathVar_get_wait_seconds x (SecondsPathVar_init vs) e =
                  (Inl (failure x (e1\<lparr>stack := s\<rparr>)
                     (''The SecondsPath parameter references a negative value: ''
                        @ expression vs @ '' == '' @ CHR ''-'' # dec (nat (- n)))),
                   e1\<lparr>stack := s\<rparr>))
       \<and> digits_value (dec (nat (- n))) = nat (- n)
       \<and> set (dec (nat (- n))) \<subseteq> set ''0123456789''
       \<and> hd (dec (nat (- n))) \<noteq> CHR ''0''"
proof (intro conjI impI)
  assume "stack e \<noteq> [] \<and> extract_json x (path sp) (last (stack e)) = Inr (PyInt n)"
  with assms show "SecondsPath_get_wait_seconds x sp e =
      (Inl (failure x e (''The SecondsPath parameter references a negative value: ''
                        @ path sp @ '' == '' @ CHR ''-'' # dec (nat (- n)))), e)"
    by (simp add: path_get_wait_seconds_nonempty validate_negative)
next
  assume "eval vs e = (Inr (), e1) \<and> stack e1 = s @ [PyInt n]"
  then have "eval (variable_sample (SecondsPathVar_init vs)) e = (Inr (), e1)"
    and "stack e1 = s @ [PyInt n]"
    by (simp_all add: SecondsPathVar_init_def)
  from var_get_wait_seconds_pushed [OF this] assms
  show "SecondsPathVar_get_wait_seconds x (SecondsPathVar_init vs) e =
      (Inl (failure x (e1\<lparr>stack := s\<rparr>)
         (''The SecondsPath parameter references a negative value: ''
            @ expression vs @ '' == '' @ CHR ''-'' # dec (nat (- n)))), e1\<lparr>stack := s\<rparr>)"
    by (simp add: validate_negative) (simp add: SecondsPathVar_init_def)
next
  show "digits_value (dec (nat (- n))) = nat (- n)"
    by (rule digits_value_dec)
  show "set (dec (nat (- n))) \<subseteq> set ''0123456789''"
    by (rule dec_digits)
  from assms show "hd (dec (nat (- n))) \<noteq> CHR ''0''"
    by (intro dec_no_leading_zero) simp
qed

theorem negative_within_limit_raises_failure_event_witness:
  "SecondsPath_get_wait_seconds scenario (SecondsPath_init ''$.wait'')
       \<lparr>stack = [PyDict [(''wait'', PyInt (- 42))]]\<rparr>
     = (Inl (failure scenario \<lparr>stack = [PyDict [(''wait'', PyInt (- 42))]]\<rparr>
          ''The SecondsPath parameter references a negative value: $.wait == -42''),
        \<lparr>stack = [PyDict [(''wait'', PyInt (- 42))]]\<rparr>)
   \<and> SecondsPathVar_get_wait_seconds scenario
       (SecondsPathVar_init \<lparr>expression = ''$wait'', eval = push_value (PyInt (- 907))\<rparr>)
       \<lparr>stack = [PyDict []]\<rparr>
     = (Inl (failure scenario \<lparr>stack = [PyDict []]\<rparr>
          ''The SecondsPath parameter references a negative value: $wait == -907''),
        \<lparr>stack = [PyDict []]\<rparr>)
   \<and> digits_value ''907'' = 907"
proof -
  have n42: "- 42 < (0::int)" and l42: "- (10 ^ int_max_str_digits) < (- 42::int)"
    using four_digits_below_limit [of 42] by simp_all
  have n907: "- 907 < (0::int)" and l907: "- (10 ^ int_max_str_digits) < (- 907::int)"
    using four_digits_below_limit [of 907] by simp_all
  have d42: "dec 42 = ''42''" and d907: "dec 907 = ''907''"
    by (simp_all add: dec.simps)
  show ?thesis
    using negative_within_limit_raises_failure_event [OF n42 l42,
        where x = scenario
        and sp = "SecondsPath_init ''$.wait''"
        and e = "\<lparr>stack = [PyDict [(''wait'', PyInt (- 42))]]\<rparr>"
        and vs = "\<lparr>expression = ''$wait'', eval = push_value (PyInt (- 42))\<rparr>"
        and ?e1.0 = "\<lparr>stack = [PyDict [(''wait'', PyInt (- 42))], PyInt (- 42)]\<rparr>"
        and s = "[PyDict [(''wait'', PyInt (- 42))]]"]
      negative_within_limit_raises_failure_event [OF n907 l907,
        where x = scenario
        and sp = "SecondsPath_init ''$.wait''"
        and e = "\<lparr>stack = [PyDict []]\<rparr>"
        and vs = "\<lparr>expression = ''$wait'', eval = push_value (PyInt (- 907))\<rparr>"
        and ?e1.0 = "\<lparr>stack = [PyDict [], PyInt (- 907)]\<rparr>"
        and s = "[PyDict []]"]
    by (simp add: scenario_def SecondsPath_init_def lookup_field_def push_value_def d42 d907)
qed

section \<open>Values that are not integers\<close>




section \<open>Booleans\<close>

text \<open>
  Claim C4 says that a boolean is rejected as not integral. The code does not reject it:
  \<open>isinstance(seconds, int)\<close> holds of a boolean and a boolean is never negative, so
  the validator returns without raising for \<open>True\<close> and for \<open>False\<close>, and the
  resolver returns the boolean as the duration. Here: on the input document
  \<open>{"wait": true}\<close> with the path \<open>$.wait\<close> the path-based resolver returns
  \<open>True\<close>.
\<close>

theorem boolean_accepted_as_duration:
  "validate_seconds_value x self e (PyBool b) = Inr ()
   \<and> (\<forall>y. SecondsPath_get_wait_seconds (y\<lparr>extract_json := lookup_field\<rparr>)
         (SecondsPath_init ''$.wait'') \<lparr>stack = [PyDict [(''wait'', PyBool True)]]\<rparr>
       = (Inr (PyBool True), \<lparr>stack = [PyDict [(''wait'', PyBool True)]]\<rparr>))"
  by (simp add: validate_bool path_get_wait_seconds_nonempty SecondsPath_init_def
      lookup_field_def)

section \<open>The stack\<close>

text \<open>
  Claim C5. The path-based resolver leaves the environment as it found it, whatever the
  outcome (a returned value, a validation failure, an exception of the extractor, the
  indexing error): in particular the stack after the call is the stack before it. The
  top of the stack is read, not popped.
\<close>

theorem path_resolver_keeps_stack:
  "snd (SecondsPath_get_wait_seconds x self e) = e
   \<and> stack (snd (SecondsPath_get_wait_seconds x self e)) = stack e"
  by (simp add: path_get_wait_seconds_env)

theorem path_resolver_keeps_stack_witness:
  "\<forall>x.
     stack (snd (SecondsPath_get_wait_seconds (x\<lparr>extract_json := lookup_field\<rparr>)
       (SecondsPath_init ''$.wait'') \<lparr>stack = [PyNone, PyDict [(''wait'', PyInt 5)]]\<rparr>))
     = [PyNone, PyDict [(''wait'', PyInt 5)]]
   \<and> stack (snd (SecondsPath_get_wait_seconds (x\<lparr>extract_json := lookup_field\<rparr>)
       (SecondsPath_init ''$.wait'') \<lparr>stack = [PyNone, PyDict [(''wait'', PyStr ''soon'')]]\<rparr>))
     = [PyNone, PyDict [(''wait'', PyStr ''soon'')]]"
proof (intro allI)
  fix x :: externals
  show "stack (snd (SecondsPath_get_wait_seconds (x\<lparr>extract_json := lookup_field\<rparr>)
       (SecondsPath_init ''$.wait'') \<lparr>stack = [PyNone, PyDict [(''wait'', PyInt 5)]]\<rparr>))
     = [PyNone, PyDict [(''wait'', PyInt 5)]]
   \<and> stack (snd (SecondsPath_get_wait_seconds (x\<lparr>extract_json := lookup_field\<rparr>)
       (SecondsPath_init ''$.wait'') \<lparr>stack = [PyNone, PyDict [(''wait'', PyStr ''soon'')]]\<rparr>))
     = [PyNone, PyDict [(''wait'', PyStr ''soon'')]]"
    using path_resolver_keeps_stack [
        where x = "x\<lparr>extract_json := lookup_field\<rparr>"
        and self = "SecondsPath_init ''$.wait''"
        and e = "\<lparr>stack = [PyNone, PyDict [(''wait'', PyInt 5)]]\<rparr>"]
      path_resolver_keeps_stack [
        where x = "x\<lparr>extract_json := lookup_field\<rparr>"
        and self = "SecondsPath_init ''$.wait''"
        and e = "\<lparr>stack = [PyNone, PyDict [(''wait'', PyStr ''soon'')]]\<rparr>"]
    by simp
qed

text \<open>
  Claim C6. When the evaluation of the variable sample returns having pushed exactly
  one value \<open>v\<close>, the stack after the variable-based resolver is the stack before it,
  and so of the same depth, whether \<open>v\<close> passes validation or fails it.
\<close>

theorem var_resolver_net_zero:
  assumes "eval (variable_sample self) e = (Inr (), e1)" and "stack e1 = stack e @ [v]"
  shows "stack (snd (SecondsPathVar_get_wait_seconds x self e)) = stack e
       \<and> length (stack (snd (SecondsPathVar_get_wait_seconds x self e))) = length (stack e)"
  by (simp add: var_get_wait_seconds_pushed [OF assms] split: sum.splits)


theorem var_resolver_net_zero_witness:
  "\<forall>x.
     stack (snd (SecondsPathVar_get_wait_seconds x
       (SecondsPathVar_init \<lparr>expression = ''$wait'', eval = push_value (PyInt 5)\<rparr>)
       \<lparr>stack = [PyDict [], PyNone]\<rparr>)) = [PyDict [], PyNone]
   \<and> stack (snd (SecondsPathVar_get_wait_seconds x
       (SecondsPathVar_init \<lparr>expression = ''$wait'', eval = push_value (PyStr ''soon'')\<rparr>)
       \<lparr>stack = [PyDict [], PyNone]\<rparr>)) = [PyDict [], PyNone]"
proof (intro allI)
  fix x :: externals
  have ok: "eval (variable_sample
        (SecondsPathVar_init \<lparr>expression = ''$wait'', eval = push_value (PyInt 5)\<rparr>))
      \<lparr>stack = [PyDict [], PyNone]\<rparr> = (Inr (), \<lparr>stack = [PyDict [], PyNone, PyInt 5]\<rparr>)"
    by (simp add: SecondsPathVar_init_def push_value_def)
  have bad: "eval (variable_sample
        (SecondsPathVar_init \<lparr>expression = ''$wait'', eval = push_value (PyStr ''soon'')\<rparr>))
      \<lparr>stack = [PyDict [], PyNone]\<rparr>
      = (Inr (), \<lparr>stack = [PyDict [], PyNone, PyStr ''soon'']\<rparr>)"
    by (simp add: SecondsPathVar_init_def push_value_def)
  show "stack (snd (SecondsPathVar_get_wait_seconds x
       (SecondsPathVar_init \<lparr>expression = ''$wait'', eval = push_value (PyInt 5)\<rparr>)
       \<lparr>stack = [PyDict [], PyNone]\<rparr>)) = [PyDict [], PyNone]
   \<and> stack (snd (SecondsPathVar_get_wait_seconds x
       (SecondsPathVar_init \<lparr>expression = ''$wait'', eval = push_value (PyStr ''soon'')\<rparr>)
       \<lparr>stack = [PyDict [], PyNone]\<rparr>)) = [PyDict [], PyNone]"
    using var_resolver_net_zero [OF ok, of "PyInt 5" x]
      var_resolver_net_zero [OF bad, of "PyStr ''soon''" x]
    by simp
qed

section \<open>One validator for both resolvers\<close>

text \<open>
  Claim C7. The path of a variable-based wait specification is the text of its
  expression; on every raw value the validator gives the variable-based specification
  the outcome it gives the path-based specification of that path: the same
  classification and the same cause; and when the variable sample pushes the value the
  extractor finds at that path, the two resolvers agree on result and environment.
\<close>

theorem var_resolver_shares_validator:
  "path (SecondsPathVar_init vs) = expression vs
   \<and> validate_seconds_value x (SecondsPathVar_init vs) e v
       = validate_seconds_value x (SecondsPath_init (expression vs)) e v
   \<and> (eval vs e = (Inr (), e1) \<and> stack e1 = stack e @ [v] \<and> stack e \<noteq> []
        \<and> extract_json x (expression vs) (last (stack e)) = Inr v
      \<longrightarrow> SecondsPathVar_get_wait_seconds x (SecondsPathVar_init vs) e
          = SecondsPath_get_wait_seconds x (SecondsPath_init (expression vs)) e)"
proof (intro conjI impI)
  show "path (SecondsPathVar_init vs) = expression vs"
    by (simp add: SecondsPathVar_init_def)
  show same: "validate_seconds_value x (SecondsPathVar_init vs) e v
      = validate_seconds_value x (SecondsPath_init (expression vs)) e v" for e
    by (cases "py_format x v")
      (simp_all add: validate_seconds_value_def SecondsPathVar_init_def SecondsPath_init_def)
  assume h: "eval vs e = (Inr (), e1) \<and> stack e1 = stack e @ [v] \<and> stack e \<noteq> []
        \<and> extract_json x (expression vs) (last (stack e)) = Inr v"
  then have pushed: "eval (variable_sample (SecondsPathVar_init vs)) e = (Inr (), e1)"
    and top: "stack e1 = stack e @ [v]"
    by (simp_all add: SecondsPathVar_init_def)
  have popped: "e1\<lparr>stack := stack e\<rparr> = e"
    by simp
  from h have "SecondsPath_get_wait_seconds x (SecondsPath_init (expression vs)) e =
      (case validate_seconds_value x (SecondsPath_init (expression vs)) e v of
         Inl err \<Rightarrow> (Inl err, e) | Inr u \<Rightarrow> (Inr v, e))"
    by (simp add: path_get_wait_seconds_nonempty) (simp add: SecondsPath_init_def)
  with var_get_wait_seconds_pushed [OF pushed top, of x] popped same [of e]
  show "SecondsPathVar_get_wait_seconds x (SecondsPathVar_init vs) e
      = SecondsPath_get_wait_seconds x (SecondsPath_init (expression vs)) e"
    by (simp split: sum.splits)
qed

theorem var_resolver_shares_validator_witness:
  "\<forall>x.
     SecondsPathVar_get_wait_seconds (x\<lparr>extract_json := lookup_field\<rparr>)
       (SecondsPathVar_init \<lparr>expression = ''$.wait'', eval = push_value (PyStr ''soon'')\<rparr>)
       \<lparr>stack = [PyDict [(''wait'', PyStr ''soon'')]]\<rparr>
     = SecondsPath_get_wait_seconds (x\<lparr>extract_json := lookup_field\<rparr>)
       (SecondsPath_init ''$.wait'') \<lparr>stack = [PyDict [(''wait'', PyStr ''soon'')]]\<rparr>
   \<and> SecondsPath_get_wait_seconds (x\<lparr>extract_json := lookup_field\<rparr>)
       (SecondsPath_init ''$.wait'') \<lparr>stack = [PyDict [(''wait'', PyStr ''soon'')]]\<rparr>
     = (Inl (failure x \<lparr>stack = [PyDict [(''wait'', PyStr ''soon'')]]\<rparr>
          ''The SecondsPath parameter cannot be parsed as a long value: $.wait == soon''),
        \<lparr>stack = [PyDict [(''wait'', PyStr ''soon'')]]\<rparr>)"
proof (intro allI)
  fix x :: externals
  show "SecondsPathVar_get_wait_seconds (x\<lparr>extract_json := lookup_field\<rparr>)
       (SecondsPathVar_init \<lparr>expression = ''$.wait'', eval = push_value (PyStr ''soon'')\<rparr>)
       \<lparr>stack = [PyDict [(''wait'', PyStr ''soon'')]]\<rparr>
     = SecondsPath_get_wait_seconds (x\<lparr>extract_json := lookup_field\<rparr>)
       (SecondsPath_init ''$.wait'') \<lparr>stack = [PyDict [(''wait'', PyStr ''soon'')]]\<rparr>
   \<and> SecondsPath_get_wait_seconds (x\<lparr>extract_json := lookup_field\<rparr>)
       (SecondsPath_init ''$.wait'') \<lparr>stack = [PyDict [(''wait'', PyStr ''soon'')]]\<rparr>
     = (Inl (failure x \<lparr>stack = [PyDict [(''wait'', PyStr ''soon'')]]\<rparr>
          ''The SecondsPath parameter cannot be parsed as a long value: $.wait == soon''),
        \<lparr>stack = [PyDict [(''wait'', PyStr ''soon'')]]\<rparr>)"
    using var_resolver_shares_validator [
        where x = "x\<lparr>extract_json := lookup_field\<rparr>"
        and vs = "\<lparr>expression = ''$.wait'', eval = push_value (PyStr ''soon'')\<rparr>"
        and e = "\<lparr>stack = [PyDict [(''wait'', PyStr ''soon'')]]\<rparr>"
        and ?e1.0 = "\<lparr>stack = [PyDict [(''wait'', PyStr ''soon'')], PyStr ''soon'']\<rparr>"
        and v = "PyStr ''soon''"]
    by (simp add: lookup_field_def push_value_def)
      (simp add: path_get_wait_seconds_nonempty validate_str SecondsPath_init_def
        lookup_field_def failure_def)
qed

section \<open>The shape of the failure event\<close>

text \<open>
  Claim C8. Every failure event that validation raises has an error name of the runtime
  category \<open>StatesRuntime\<close>, the event type \<open>ExecutionFailed\<close>, and details that
  hold the name \<open>to_name\<close> gives that category and the cause: the negative-value text
  for an instance of \<open>int\<close>, the cannot-be-parsed text otherwise, each followed by the
  path, \<open> == \<close> and the rendering of the value. And whenever the value is within the
  digit limit, what validation raises is such a failure event.
\<close>

theorem validation_failure_shape:
  assumes "validate_seconds_value x self e v = Inl ex"
  shows "(\<forall>fe. ex = FailureEventException fe \<longrightarrow>
            typ' (error_name fe) = StatesRuntime
            \<and> event_type fe = ExecutionFailed
            \<and> error (executionFailedEventDetails (event_details fe)) = to_name x StatesRuntime
            \<and> (\<exists>r. py_format x v = Inr r
                 \<and> cause (executionFailedEventDetails (event_details fe)) =
                     (if isinstance_int v
                      then ''The SecondsPath parameter references a negative value: ''
                      else ''The SecondsPath parameter cannot be parsed as a long value: '')
                     @ path self @ '' == '' @ r))
       \<and> (within_str_digits v \<longrightarrow> (\<exists>fe. ex = FailureEventException fe))"
proof (intro conjI allI impI)
  fix fe
  assume "ex = FailureEventException fe"
  with assms have raised: "validate_seconds_value x self e v = Inl (FailureEventException fe)"
    by simp
  then obtain r where r: "py_format x v = Inr r"
    by (cases "py_format x v")
      (auto simp add: validate_seconds_value_def split: if_splits dest: py_format_raises)
  with raised show "typ' (error_name fe) = StatesRuntime"
    and "event_type fe = ExecutionFailed"
    and "error (executionFailedEventDetails (event_details fe)) = to_name x StatesRuntime"
    and "\<exists>r. py_format x v = Inr r
           \<and> cause (executionFailedEventDetails (event_details fe)) =
               (if isinstance_int v
                then ''The SecondsPath parameter references a negative value: ''
                else ''The SecondsPath parameter cannot be parsed as a long value: '')
               @ path self @ '' == '' @ r"
    by (auto simp add: validate_seconds_value_def Let_def split: if_splits)
next
  assume "within_str_digits v"
  then obtain r where "py_format x v = Inr r"
    using py_format_within by blast
  with assms show "\<exists>fe. ex = FailureEventException fe"
    by (auto simp add: validate_seconds_value_def Let_def split: if_splits)
qed

theorem validation_failure_shape_witness:
  "\<forall>x. (\<exists>fe. validate_seconds_value x (SecondsPath_init ''$.wait'') \<lparr>stack = []\<rparr>
                 (PyInt (- 1)) = Inl (FailureEventException fe)
            \<and> typ' (error_name fe) = StatesRuntime
            \<and> event_type fe = ExecutionFailed
            \<and> error (executionFailedEventDetails (event_details fe)) = to_name x StatesRuntime
            \<and> cause (executionFailedEventDetails (event_details fe)) =
                ''The SecondsPath parameter references a negative value: $.wait == -1'')
      \<and> (\<exists>fe. validate_seconds_value x (SecondsPath_init ''$.wait'') \<lparr>stack = []\<rparr>
                 (PyStr ''soon'') = Inl (FailureEventException fe)
            \<and> typ' (error_name fe) = StatesRuntime
            \<and> event_type fe = ExecutionFailed
            \<and> error (executionFailedEventDetails (event_details fe)) = to_name x StatesRuntime
            \<and> cause (executionFailedEventDetails (event_details fe)) =
                ''The SecondsPath parameter cannot be parsed as a long value: $.wait == soon'')"
proof (intro allI conjI)
  fix x :: externals
  let ?sp = "SecondsPath_init ''$.wait''"
  let ?e = "\<lparr>stack = []\<rparr>"
  have neg: "validate_seconds_value x ?sp ?e (PyInt (- 1)) =
      Inl (failure x ?e (''The SecondsPath parameter references a negative value: ''
                        @ path ?sp @ '' == '' @ CHR ''-'' # dec (nat (- (- 1)))))"
    using four_digits_below_limit [of 1] by (intro validate_negative) simp_all
  from validation_failure_shape [OF neg] neg
  show "\<exists>fe. validate_seconds_value x ?sp ?e (PyInt (- 1)) = Inl (FailureEventException fe)
            \<and> typ' (error_name fe) = StatesRuntime
            \<and> event_type fe = ExecutionFailed
            \<and> error (executionFailedEventDetails (event_details fe)) = to_name x StatesRuntime
            \<and> cause (executionFailedEventDetails (event_details fe)) =
                ''The SecondsPath parameter references a negative value: $.wait == -1''"
    by (simp add: failure_def SecondsPath_init_def dec_Suc_0)
  have str: "validate_seconds_value x ?sp ?e (PyStr ''soon'') =
      Inl (failure x ?e (''The SecondsPath parameter cannot be parsed as a long value: ''
                        @ path ?sp @ '' == '' @ ''soon''))"
    by (rule validate_str)
  from validation_failure_shape [OF str] str
  show "\<exists>fe. validate_seconds_value x ?sp ?e (PyStr ''soon'') = Inl (FailureEventException fe)
            \<and> typ' (error_name fe) = StatesRuntime
            \<and> event_type fe = ExecutionFailed
            \<and> error (executionFailedEventDetails (event_details fe)) = to_name x StatesRuntime
            \<and> cause (executionFailedEventDetails (event_details fe)) =
                ''The SecondsPath parameter cannot be parsed as a long value: $.wait == soon''"
    by (simp add: failure_def SecondsPath_init_def)
qed

section \<open>Repeated resolution\<close>

text \<open>
  Claim C9. Resolving a path-based wait specification a second time, in the environment
  the first resolution leaves behind, gives the result of the first; and in two
  environments whose stacks have the same top (the same input data) it gives the same
  outcome: the same returned value or a failure event of the same contents. The
  resolver reads its path and does not write to the specification.
\<close>

theorem resolution_is_repeatable:
  "SecondsPath_get_wait_seconds x self (snd (SecondsPath_get_wait_seconds x self e))
     = SecondsPath_get_wait_seconds x self e
   \<and> (stack ea \<noteq> [] \<and> stack eb \<noteq> [] \<and> last (stack ea) = last (stack eb)
      \<longrightarrow> same_outcome (fst (SecondsPath_get_wait_seconds x self ea))
                       (fst (SecondsPath_get_wait_seconds x self eb)))"
proof (intro conjI impI)
  show "SecondsPath_get_wait_seconds x self (snd (SecondsPath_get_wait_seconds x self e))
     = SecondsPath_get_wait_seconds x self e"
    by (simp only: path_get_wait_seconds_env)
next
  assume h: "stack ea \<noteq> [] \<and> stack eb \<noteq> [] \<and> last (stack ea) = last (stack eb)"
  show "same_outcome (fst (SecondsPath_get_wait_seconds x self ea))
                     (fst (SecondsPath_get_wait_seconds x self eb))"
  proof (cases "extract_json x (path self) (last (stack eb))")
    case (Inl err)
    with h show ?thesis
      by (simp add: fst_path_get_wait_seconds same_outcome_Inl)
  next
    case (Inr seconds)
    with h validate_same_outcome [where x = x and self = self and ea = ea and eb = eb
        and v = seconds]
    show ?thesis
      by (simp add: fst_path_get_wait_seconds)
  qed
qed

theorem resolution_is_repeatable_witness:
  "\<forall>x.
     same_outcome
       (fst (SecondsPath_get_wait_seconds (x\<lparr>extract_json := lookup_field\<rparr>)
          (SecondsPath_init ''$.wait'')
          \<lparr>stack = [PyNone, PyDict [(''wait'', PyInt (- 1))]]\<rparr>))
       (fst (SecondsPath_get_wait_seconds (x\<lparr>extract_json := lookup_field\<rparr>)
          (SecondsPath_init ''$.wait'')
          \<lparr>stack = [PyDict [(''wait'', PyInt (- 1))]]\<rparr>))
   \<and> fst (SecondsPath_get_wait_seconds (x\<lparr>extract_json := lookup_field\<rparr>)
          (SecondsPath_init ''$.wait'')
          \<lparr>stack = [PyDict [(''wait'', PyInt (- 1))]]\<rparr>)
     = Inl (failure x \<lparr>stack = [PyDict [(''wait'', PyInt (- 1))]]\<rparr>
          ''The SecondsPath parameter references a negative value: $.wait == -1'')"
proof (intro allI)
  fix x :: externals
  show "same_outcome
       (fst (SecondsPath_get_wait_seconds (x\<lparr>extract_json := lookup_field\<rparr>)
          (SecondsPath_init ''$.wait'')
          \<lparr>stack = [PyNone, PyDict [(''wait'', PyInt (- 1))]]\<rparr>))
       (fst (SecondsPath_get_wait_seconds (x\<lparr>extract_json := lookup_field\<rparr>)
          (SecondsPath_init ''$.wait'')
          \<lparr>stack = [PyDict [(''wait'', PyInt (- 1))]]\<rparr>))
   \<and> fst (SecondsPath_get_wait_seconds (x\<lparr>extract_json := lookup_field\<rparr>)
          (SecondsPath_init ''$.wait'')
          \<lparr>stack = [PyDict [(''wait'', PyInt (- 1))]]\<rparr>)
     = Inl (failure x \<lparr>stack = [PyDict [(''wait'', PyInt (- 1))]]\<rparr>
          ''The SecondsPath parameter references a negative value: $.wait == -1'')"
    using resolution_is_repeatable [
        where x = "x\<lparr>extract_json := lookup_field\<rparr>"
        and self = "SecondsPath_init ''$.wait''"
        and ea = "\<lparr>stack = [PyNone, PyDict [(''wait'', PyInt (- 1))]]\<rparr>"
        and eb = "\<lparr>stack = [PyDict [(''wait'', PyInt (- 1))]]\<rparr>"]
    using four_digits_below_limit [of 1]
    by (simp add: fst_path_get_wait_seconds validate_negative SecondsPath_init_def
        lookup_field_def failure_def dec_Suc_0)
qed

section \<open>The empty stack\<close>

text \<open>
  Claim C10. On an empty stack the path-based resolver raises the indexing error of the
  list, which is not a failure event; on a non-empty stack the indexing succeeds and the
  result is that of the extraction from the top of the stack followed by validation.
\<close>

theorem top_of_stack_indexing:
  "(stack e = [] \<longrightarrow>
      SecondsPath_get_wait_seconds x self e = (Inl (IndexError ''list index out of range''), e)
      \<and> (\<forall>fe. fst (SecondsPath_get_wait_seconds x self e) \<noteq> Inl (FailureEventException fe)))
   \<and> (stack e \<noteq> [] \<longrightarrow>
      SecondsPath_get_wait_seconds x self e =
        (case extract_json x (path self) (last (stack e)) of
           Inl err \<Rightarrow> (Inl err, e)
         | Inr seconds \<Rightarrow>
             (case validate_seconds_value x self e seconds of
                Inl err \<Rightarrow> (Inl err, e)
              | Inr u \<Rightarrow> (Inr seconds, e))))"
  by (simp add: SecondsPath_get_wait_seconds_def)

theorem top_of_stack_indexing_witness:
  "\<forall>x.
     SecondsPath_get_wait_seconds (x\<lparr>extract_json := lookup_field\<rparr>)
       (SecondsPath_init ''$.wait'') \<lparr>stack = []\<rparr>
     = (Inl (IndexError ''list index out of range''), \<lparr>stack = []\<rparr>)
   \<and> SecondsPath_get_wait_seconds (x\<lparr>extract_json := lookup_field\<rparr>)
       (SecondsPath_init ''$.wait'') \<lparr>stack = [PyDict [(''wait'', PyInt 5)]]\<rparr>
     = (Inr (PyInt 5), \<lparr>stack = [PyDict [(''wait'', PyInt 5)]]\<rparr>)"
proof (intro allI)
  fix x :: externals
  show "SecondsPath_get_wait_seconds (x\<lparr>extract_json := lookup_field\<rparr>)
       (SecondsPath_init ''$.wait'') \<lparr>stack = []\<rparr>
     = (Inl (IndexError ''list index out of range''), \<lparr>stack = []\<rparr>)
   \<and> SecondsPath_get_wait_seconds (x\<lparr>extract_json := lookup_field\<rparr>)
       (SecondsPath_init ''$.wait'') \<lparr>stack = [PyDict [(''wait'', PyInt 5)]]\<rparr>
     = (Inr (PyInt 5), \<lparr>stack = [PyDict [(''wait'', PyInt 5)]]\<rparr>)"
    using top_of_stack_indexing [
        where x = "x\<lparr>extract_json := lookup_field\<rparr>"
        and self = "SecondsPath_init ''$.wait''"
        and e = "\<lparr>stack = []\<rparr>"]
      top_of_stack_indexing [
        where x = "x\<lparr>extract_json := lookup_field\<rparr>"
        and self = "SecondsPath_init ''$.wait''"
        and e = "\<lparr>stack = [PyDict [(''wait'', PyInt 5)]]\<rparr>"]
    by (simp add: validate_accepts SecondsPath_init_def lookup_field_def)
qed

end
